theory Spec2Isabelle
  imports Main "HOL-Library.Word"
begin

section \<open>The slab allocator of mxtl/slab_allocator.h\<close>

text \<open>
  The development embeds \<^verbatim>\<open>mxtl::internal::SlabAllocator<SATraits>\<close>, its nested
  \<^verbatim>\<open>Slab\<close>, the origin setter and the two \<^verbatim>\<open>operator delete\<close> overloads of
  \<^verbatim>\<open>SlabAllocated<SATraits>\<close>. The build modelled is the one with
  \<^verbatim>\<open>LK_DEBUGLEVEL > 1\<close>: the free-list counter exists and \<^verbatim>\<open>DEBUG_ASSERT\<close> fires.
  The lock is not modelled: every function below is one critical section of the source.
\<close>

subsection \<open>Compile-time configuration\<close>

type_synonym size_t = "64 word"

text \<open>
  What the templates derive from \<^verbatim>\<open>SATraits\<close> and from the object type:
  \<^verbatim>\<open>SLAB_SIZE\<close>, \<^verbatim>\<open>offsetof(Slab, allocs_)\<close>, \<^verbatim>\<open>sizeof(Slab::Allocation)\<close>,
  \<^verbatim>\<open>IsStaticAllocator\<close>, and the location of the static member \<^verbatim>\<open>allocator_\<close>
  that \<^verbatim>\<open>DECLARE_STATIC_SLAB_ALLOCATOR_STORAGE\<close> declares for a static configuration.
\<close>

record SATraits =
  SLAB_SIZE :: size_t
  SlabOverhead :: size_t
  sizeof_Allocation :: size_t
  IsStaticAllocator :: bool
  static_allocator :: nat

definition SlabAllocationCount :: "SATraits \<Rightarrow> size_t" where
  "SlabAllocationCount t = (SLAB_SIZE t - SlabOverhead t) div sizeof_Allocation t"

subsection \<open>Memory and the host allocator\<close>

text \<open>
  A slab region is named by the address the host allocator returned for it; a cell is
  \<^verbatim>\<open>allocs_[i].data\<close> of the slab in that region. A \<^verbatim>\<open>void*\<close> is a \<open>cell option\<close>,
  \<open>None\<close> being \<^verbatim>\<open>nullptr\<close>.
\<close>

datatype cell = Cell (cell_region: nat) (cell_index: size_t)

text \<open>
  Modelled from the spec: the host allocator (\<^verbatim>\<open>aligned_alloc\<close> and \<^verbatim>\<open>free\<close> of the C
  library) is outside the repository; it hands out a region or fails. Its answers are a
  parameter: \<open>grants h n\<close> is what the \<open>n\<close>-th call of \<^verbatim>\<open>aligned_alloc\<close> returns
  (\<open>None\<close> for \<^verbatim>\<open>nullptr\<close>), \<open>calls h\<close> counts the calls made so far, \<open>freed h\<close>
  lists the regions given back. Alignment and size of the request do not enter the
  answer.
\<close>

record host =
  grants :: "nat \<Rightarrow> nat option"
  calls :: nat
  freed :: "nat list"

definition aligned_alloc :: "host \<Rightarrow> size_t \<Rightarrow> nat option \<times> host" where
  "aligned_alloc h sz = (grants h (calls h), h\<lparr>calls := Suc (calls h)\<rparr>)"

definition host_free :: "host \<Rightarrow> nat \<Rightarrow> host" where
  "host_free h a = h\<lparr>freed := a # freed h\<rparr>"

subsection \<open>Slab and pool state\<close>

text \<open>
  Modelled from the spec: \<^verbatim>\<open>mxtl::SinglyLinkedList\<close> (\<^verbatim>\<open>mxtl/intrusive_single_list.h\<close>
  is not among the sources) is a list whose \<^verbatim>\<open>push_front\<close> links at the head, whose
  \<^verbatim>\<open>pop_front\<close> unlinks and returns the head, whose \<^verbatim>\<open>front\<close> is the head and whose
  \<^verbatim>\<open>is_empty\<close> tells whether there is none. The free list links the cells themselves,
  the slab list links the slabs. All counters are \<^verbatim>\<open>size_t\<close>.
\<close>

record Slab =
  region :: nat
  alloc_count :: size_t

record SlabAllocator =
  free_list :: "cell list"
  slab_list :: "Slab list"
  max_slabs :: size_t
  slab_count :: size_t
  free_list_size :: size_t

subsection \<open>Slab::Allocate, SlabAllocator::Allocate, ReturnToFreeList\<close>

definition Slab_Allocate :: "SATraits \<Rightarrow> Slab \<Rightarrow> cell option \<times> Slab" where
  "Slab_Allocate t s =
     (if alloc_count s \<ge> SlabAllocationCount t then (None, s)
      else (Some (Cell (region s) (alloc_count s)), s\<lparr>alloc_count := alloc_count s + 1\<rparr>))"

text \<open>\<^verbatim>\<open>slab_list_.front().Allocate()\<close>: the front slab is updated in place.\<close>

definition front_Allocate :: "SATraits \<Rightarrow> SlabAllocator \<Rightarrow> cell option \<times> SlabAllocator" where
  "front_Allocate t p =
     (case slab_list p of
        [] \<Rightarrow> (None, p)
      | s # ss \<Rightarrow> (case Slab_Allocate t s of (mem, s') \<Rightarrow> (mem, p\<lparr>slab_list := s' # ss\<rparr>)))"

definition Allocate ::
  "SATraits \<Rightarrow> SlabAllocator \<Rightarrow> host \<Rightarrow> cell option \<times> SlabAllocator \<times> host" where
  "Allocate t p h =
     (case free_list p of
        c # rest \<Rightarrow>
          (Some c, p\<lparr>free_list_size := free_list_size p - 1, free_list := rest\<rparr>, h)
      | [] \<Rightarrow>
          (case (if slab_list p = [] then (None, p) else front_Allocate t p) of
             (Some mem, p1) \<Rightarrow> (Some mem, p1, h)
           | (None, p1) \<Rightarrow>
               if slab_count p1 < max_slabs p1 then
                 (case aligned_alloc h (SLAB_SIZE t) of
                    (Some slab_mem, h') \<Rightarrow>
                      (let slab = \<lparr>region = slab_mem, alloc_count = 0\<rparr>;
                           p2 = p1\<lparr>slab_count := slab_count p1 + 1\<rparr>;
                           p3 = p2\<lparr>slab_list := slab # slab_list p2\<rparr>
                       in case front_Allocate t p3 of (mem, p4) \<Rightarrow> (mem, p4, h'))
                  | (None, h') \<Rightarrow> (None, p1, h'))
               else (None, p1, h)))"

definition ReturnToFreeList :: "SlabAllocator \<Rightarrow> cell \<Rightarrow> SlabAllocator" where
  "ReturnToFreeList p ptr =
     p\<lparr>free_list_size := free_list_size p + 1, free_list := ptr # free_list p\<rparr>"

subsection \<open>Constructor and destructor\<close>

definition SlabAllocator_ctor ::
  "SATraits \<Rightarrow> size_t \<Rightarrow> bool \<Rightarrow> host \<Rightarrow> SlabAllocator \<times> host" where
  "SlabAllocator_ctor t ms alloc_initial h =
     (let p = \<lparr>free_list = [], slab_list = [], max_slabs = ms, slab_count = 0,
                free_list_size = 0\<rparr>
      in if alloc_initial then
           (case Allocate t p h of
              (Some first_alloc, p', h') \<Rightarrow> (ReturnToFreeList p' first_alloc, h')
            | (None, p', h') \<Rightarrow> (p', h'))
         else (p, h))"

text \<open>
  A \<^verbatim>\<open>DEBUG_ASSERT\<close> whose condition is false stops the program; that is a result of
  its own. So is a read of a member out of storage that holds no object.
\<close>

datatype error = DEBUG_ASSERT_failed | Undefined_behaviour

text \<open>The \<^verbatim>\<open>while\<close> loop of the destructor: pop each slab, add its count, free it.\<close>

fun free_slabs :: "Slab list \<Rightarrow> size_t \<Rightarrow> host \<Rightarrow> size_t \<times> host" where
  "free_slabs [] allocated_count h = (allocated_count, h)"
| "free_slabs (free_me # rest) allocated_count h =
     free_slabs rest (allocated_count + alloc_count free_me) (host_free h (region free_me))"

definition SlabAllocator_dtor :: "SlabAllocator \<Rightarrow> host \<Rightarrow> error + host" where
  "SlabAllocator_dtor p h =
     (case free_slabs (slab_list p) 0 h of
        (allocated_count, h') \<Rightarrow>
          if free_list_size p = allocated_count then Inr h' else Inl DEBUG_ASSERT_failed)"

subsection \<open>Objects, origin tagging, New and operator delete\<close>

text \<open>
  An object of a type deriving from \<^verbatim>\<open>SlabAllocated<SATraits>\<close>: the base's
  \<^verbatim>\<open>slab_origin_\<close> (initialised to \<^verbatim>\<open>nullptr\<close>; a static configuration has no such
  member, it stays \<open>None\<close> there) and the derived type's own state. Pools are objects
  too: \<open>pools w a\<close> is the allocator at address \<open>a\<close>.
\<close>

record 'a SlabAllocated =
  slab_origin :: "nat option"
  obj_state :: 'a

record 'a world =
  pools :: "nat \<Rightarrow> SlabAllocator"
  the_host :: host
  objects :: "cell \<rightharpoonup> 'a SlabAllocated"

definition SetOrigin ::
  "SATraits \<Rightarrow> cell option \<Rightarrow> nat option \<Rightarrow> (cell \<rightharpoonup> 'a SlabAllocated)
     \<Rightarrow> error + (cell \<rightharpoonup> 'a SlabAllocated)" where
  "SetOrigin t ptr origin objs =
     (if IsStaticAllocator t then Inr objs
      else (case (ptr, origin) of
              (Some c, Some a) \<Rightarrow>
                Inr (objs(c := map_option (\<lambda>ob. ob\<lparr>slab_origin := Some a\<rparr>) (objs c)))
            | _ \<Rightarrow> Inl DEBUG_ASSERT_failed))"

text \<open>
  \<^verbatim>\<open>New\<close> returns \<^verbatim>\<open>PtrTraits::CreatePtr(obj)\<close>; the three pointer flavours wrap the
  raw pointer without touching the pool, so the raw pointer is what the model returns.
\<close>

definition New ::
  "SATraits \<Rightarrow> nat \<Rightarrow> 'a \<Rightarrow> 'a world \<Rightarrow> error + (cell option \<times> 'a world)" where
  "New t this args w =
     (case Allocate t (pools w this) (the_host w) of
        (mem, p', h') \<Rightarrow>
          (let w1 = w\<lparr>pools := (pools w)(this := p'), the_host := h'\<rparr>
           in case mem of
                None \<Rightarrow> Inr (None, w1)
              | Some c \<Rightarrow>
                  (let objs1 = (objects w1)(c \<mapsto> \<lparr>slab_origin = None, obj_state = args\<rparr>)
                   in case SetOrigin t (Some c) (Some this) objs1 of
                        Inl e \<Rightarrow> Inl e
                      | Inr objs2 \<Rightarrow> Inr (Some c, w1\<lparr>objects := objs2\<rparr>))))"

text \<open>The static facade: \<^verbatim>\<open>SlabAllocator<SATraits>::New\<close> forwards to \<^verbatim>\<open>allocator_\<close>.\<close>

definition static_New ::
  "SATraits \<Rightarrow> 'a \<Rightarrow> 'a world \<Rightarrow> error + (cell option \<times> 'a world)" where
  "static_New t args w = New t (static_allocator t) args w"

definition return_cell :: "nat \<Rightarrow> cell \<Rightarrow> 'a world \<Rightarrow> 'a world" where
  "return_cell a c w =
     w\<lparr>pools := (pools w)(a := ReturnToFreeList (pools w a) c),
       objects := (objects w)(c := None)\<rparr>"

text \<open>
  \<^verbatim>\<open>SlabAllocated<SATraits>::operator delete\<close>, both specialisations. The instanced one
  reads \<^verbatim>\<open>slab_origin_\<close> out of the storage it is given; storage that holds no object
  has no such member to read.
\<close>

definition operator_delete :: "SATraits \<Rightarrow> cell option \<Rightarrow> 'a world \<Rightarrow> error + 'a world" where
  "operator_delete t ptr w =
     (case ptr of
        None \<Rightarrow> Inl DEBUG_ASSERT_failed
      | Some c \<Rightarrow>
          if IsStaticAllocator t then Inr (return_cell (static_allocator t) c w)
          else (case objects w c of
                  None \<Rightarrow> Inl Undefined_behaviour
                | Some ob \<Rightarrow>
                    (case slab_origin ob of
                       None \<Rightarrow> Inl DEBUG_ASSERT_failed
                     | Some a \<Rightarrow> Inr (return_cell a c w))))"

definition construct_pool ::
  "SATraits \<Rightarrow> nat \<Rightarrow> size_t \<Rightarrow> bool \<Rightarrow> 'a world \<Rightarrow> 'a world" where
  "construct_pool t this ms alloc_initial w =
     (case SlabAllocator_ctor t ms alloc_initial (the_host w) of
        (p, h') \<Rightarrow> w\<lparr>pools := (pools w)(this := p), the_host := h'\<rparr>)"

fun New_seq ::
  "SATraits \<Rightarrow> nat \<Rightarrow> 'a list \<Rightarrow> 'a world \<Rightarrow> error + (cell option list \<times> 'a world)" where
  "New_seq t this [] w = Inr ([], w)"
| "New_seq t this (a # as) w =
     (case New t this a w of
        Inl e \<Rightarrow> Inl e
      | Inr (r, w') \<Rightarrow>
          (case New_seq t this as w' of
             Inl e \<Rightarrow> Inl e
           | Inr (rs, w'') \<Rightarrow> Inr (r # rs, w'')))"

subsection \<open>Callers: sequences of acquire and release\<close>

text \<open>
  A caller holds the cells it was given and may release only a cell it holds. \<open>held\<close> is
  the callers' side of the bookkeeping; the pool does not see it.
\<close>

datatype op = Acquire | Release cell

record client =
  cl_pool :: SlabAllocator
  cl_host :: host
  held :: "cell list"

fun step :: "SATraits \<Rightarrow> client \<Rightarrow> op \<Rightarrow> client option" where
  "step t s Acquire =
     (case Allocate t (cl_pool s) (cl_host s) of
        (r, p', h') \<Rightarrow>
          Some \<lparr>cl_pool = p', cl_host = h',
                held = (case r of None \<Rightarrow> held s | Some c \<Rightarrow> c # held s)\<rparr>)"
| "step t s (Release c) =
     (if c \<in> set (held s)
      then Some \<lparr>cl_pool = ReturnToFreeList (cl_pool s) c, cl_host = cl_host s,
                 held = remove1 c (held s)\<rparr>
      else None)"

fun run :: "SATraits \<Rightarrow> client \<Rightarrow> op list \<Rightarrow> client option" where
  "run t s [] = Some s"
| "run t s (x # xs) = (case step t s x of None \<Rightarrow> None | Some s' \<Rightarrow> run t s' xs)"

definition fresh :: "SATraits \<Rightarrow> size_t \<Rightarrow> bool \<Rightarrow> host \<Rightarrow> client" where
  "fresh t ms alloc_initial h =
     (case SlabAllocator_ctor t ms alloc_initial h of
        (p, h') \<Rightarrow> \<lparr>cl_pool = p, cl_host = h', held = []\<rparr>)"

text \<open>\<open>n\<close> acquires in a row, nothing released in between.\<close>

fun Allocate_n ::
  "SATraits \<Rightarrow> nat \<Rightarrow> SlabAllocator \<Rightarrow> host \<Rightarrow> cell option list \<times> SlabAllocator \<times> host" where
  "Allocate_n t 0 p h = ([], p, h)"
| "Allocate_n t (Suc n) p h =
     (case Allocate t p h of
        (r, p', h') \<Rightarrow>
          (case Allocate_n t n p' h' of (rs, p'', h'') \<Rightarrow> (r # rs, p'', h'')))"

subsection \<open>The acquire path as the specification words it\<close>

text \<open>
  The four steps in the order the specification gives them: pop the free list; else carve
  from the front slab if it is not full; else, below the slab ceiling, ask the host for a
  region, push it as the new front slab, count it and hand out its first cell; else null.
  The host is asked exactly when the third step is reached.
\<close>

definition acquire_spec ::
  "SATraits \<Rightarrow> SlabAllocator \<Rightarrow> host \<Rightarrow> cell option \<times> SlabAllocator \<times> host" where
  "acquire_spec t p h =
     (if free_list p \<noteq> [] then
        (Some (hd (free_list p)),
         p\<lparr>free_list := tl (free_list p), free_list_size := free_list_size p - 1\<rparr>, h)
      else if slab_list p \<noteq> [] \<and> alloc_count (hd (slab_list p)) < SlabAllocationCount t then
        (Some (Cell (region (hd (slab_list p))) (alloc_count (hd (slab_list p)))),
         p\<lparr>slab_list :=
             (hd (slab_list p))\<lparr>alloc_count := alloc_count (hd (slab_list p)) + 1\<rparr>
               # tl (slab_list p)\<rparr>,
         h)
      else if slab_count p < max_slabs p then
        (case grants h (calls h) of
           Some a \<Rightarrow>
             (Some (Cell a 0),
              p\<lparr>slab_list := \<lparr>region = a, alloc_count = 1\<rparr> # slab_list p,
                slab_count := slab_count p + 1\<rparr>,
              h\<lparr>calls := Suc (calls h)\<rparr>)
         | None \<Rightarrow> (None, p, h\<lparr>calls := Suc (calls h)\<rparr>))
      else (None, p, h))"

subsection \<open>Quantities the properties speak of\<close>

text \<open>The cells the slabs have handed out in carve order, summed over the slab list.\<close>

definition total_allocated :: "SlabAllocator \<Rightarrow> nat" where
  "total_allocated p = sum_list (map (\<lambda>s. unat (alloc_count s)) (slab_list p))"

text \<open>
  What the counters of a pool satisfy between calls: no slab has carved more cells than it
  has, \<^verbatim>\<open>slab_count_\<close> is the length of the slab list and at most \<^verbatim>\<open>max_slabs_\<close>, and
  \<^verbatim>\<open>free_list_size_\<close> is the length of the free list (as a \<^verbatim>\<open>size_t\<close>).
\<close>

definition pool_inv :: "SATraits \<Rightarrow> SlabAllocator \<Rightarrow> bool" where
  "pool_inv t p \<longleftrightarrow>
     (\<forall>s \<in> set (slab_list p). alloc_count s \<le> SlabAllocationCount t) \<and>
     unat (slab_count p) = length (slab_list p) \<and>
     slab_count p \<le> max_slabs p \<and>
     free_list_size p = of_nat (length (free_list p))"

text \<open>
  The acquires a pool can still serve when the host grants every slab it is asked for:
  the free cells, the cells the front slab has not carved yet, and the slabs still to come.
\<close>

definition remaining :: "SATraits \<Rightarrow> SlabAllocator \<Rightarrow> nat" where
  "remaining t p =
     length (free_list p)
     + (case slab_list p of
          [] \<Rightarrow> 0
        | s # _ \<Rightarrow> unat (SlabAllocationCount t) - unat (alloc_count s))
     + (unat (max_slabs p) - unat (slab_count p)) * unat (SlabAllocationCount t)"

text \<open>The callers and the pool together: every cell handed out is held or free.\<close>

definition client_inv :: "SATraits \<Rightarrow> client \<Rightarrow> bool" where
  "client_inv t s \<longleftrightarrow>
     pool_inv t (cl_pool s) \<and>
     length (held s) + length (free_list (cl_pool s)) = total_allocated (cl_pool s)"

subsection \<open>A concrete configuration\<close>

text \<open>
  Objects of 32 bytes in slabs of 80 bytes with a 16-byte header: two cells per slab.
  One host grants every request with a new region, the other refuses every request.
\<close>

definition example_traits :: SATraits where
  "example_traits =
     \<lparr>SLAB_SIZE = 80, SlabOverhead = 16, sizeof_Allocation = 32,
      IsStaticAllocator = False, static_allocator = 0\<rparr>"

definition example_static_traits :: SATraits where
  "example_static_traits = example_traits\<lparr>IsStaticAllocator := True\<rparr>"

definition granting_host :: host where
  "granting_host = \<lparr>grants = (\<lambda>n. Some (1000 + n)), calls = 0, freed = []\<rparr>"

definition refusing_host :: host where
  "refusing_host = \<lparr>grants = (\<lambda>n. None), calls = 0, freed = []\<rparr>"

definition empty_world :: "unit world" where
  "empty_world =
     \<lparr>pools = (\<lambda>a. \<lparr>free_list = [], slab_list = [], max_slabs = 0, slab_count = 0,
                      free_list_size = 0\<rparr>),
      the_host = granting_host, objects = Map.empty\<rparr>"

section \<open>Properties\<close>

subsection \<open>Arithmetic on \<^verbatim>\<open>size_t\<close>\<close>

text \<open>
  Every increment in the source is guarded by a strict comparison with a larger
  \<^verbatim>\<open>size_t\<close>, so it does not wrap.
\<close>

lemma word_inc_unat:
  fixes x y :: "'a::len word"
  assumes "x < y"
  shows "unat (x + 1) = Suc (unat x)"
proof -
  have "unat x < unat y"
    using assms by (simp add: word_less_nat_alt)
  moreover have "unat y < 2 ^ LENGTH('a)"
    by (rule unsigned_less)
  ultimately have "unat x + 1 < 2 ^ LENGTH('a)"
    by linarith
  then show ?thesis
    by (simp add: unat_word_ariths)
qed

lemma word_one_le:
  fixes x :: "'a::len word"
  shows "x \<noteq> 0 \<Longrightarrow> 1 \<le> x"
  using inc_le [of 0 x] by (simp add: word_gt_0)

lemma slab_budget_step:
  fixes S M C :: nat
  assumes "S < M" and "0 < C"
  shows "Suc ((C - 1) + (M - Suc S) * C) = (M - S) * C"
proof -
  from assms(1) obtain k where k: "M - S = Suc k"
    by (cases "M - S") auto
  then have "M - Suc S = k"
    by simp
  with k assms(2) show ?thesis
    by simp
qed

lemma of_nat_cancel:
  assumes "n < 2 ^ LENGTH('a)"
  shows "(of_nat m :: 'a::len word) = of_nat (n + m) \<longleftrightarrow> n = 0"
proof -
  have "(of_nat m :: 'a word) = of_nat (n + m) \<longleftrightarrow> (of_nat n :: 'a word) = 0"
    by simp
  also have "\<dots> \<longleftrightarrow> n = 0"
    using assms by (auto simp: word_of_nat_eq_0_iff dest: dvd_imp_le)
  finally show ?thesis .
qed

subsection \<open>Evaluating the concrete configuration\<close>

lemmas eval_defs =
  SlabAllocator_ctor_def Allocate_def front_Allocate_def Slab_Allocate_def aligned_alloc_def
  ReturnToFreeList_def SlabAllocationCount_def fresh_def Let_def
  example_traits_def example_static_traits_def granting_host_def refusing_host_def
  word_le_nat_alt word_less_nat_alt

lemma Allocate_n_numeral:
  "Allocate_n t (numeral k) p h =
     (case Allocate t p h of
        (r, p', h') \<Rightarrow>
          (case Allocate_n t (pred_numeral k) p' h' of (rs, p'', h'') \<Rightarrow> (r # rs, p'', h'')))"
  by (simp add: numeral_eq_Suc)

lemma example_SlabAllocationCount: "SlabAllocationCount example_traits = 2"
  by (simp add: SlabAllocationCount_def example_traits_def)

subsection \<open>One acquire\<close>

lemma Allocate_acquire_spec:
  assumes "0 < SlabAllocationCount t"
  shows "Allocate t p h = acquire_spec t p h"
  using assms
  by (cases "free_list p"; cases "slab_list p")
     (auto simp: Allocate_def acquire_spec_def front_Allocate_def Slab_Allocate_def aligned_alloc_def
       Let_def not_le not_less split: option.splits prod.splits if_splits)

lemma Allocate_pool_inv:
  assumes "pool_inv t p" and "Allocate t p h = (r, p', h')"
  shows "pool_inv t p'"
  using assms
  by (cases "free_list p"; cases "slab_list p")
     (auto simp: Allocate_def pool_inv_def front_Allocate_def Slab_Allocate_def aligned_alloc_def
       Let_def not_le not_less word_inc_unat inc_le word_one_le split: option.splits prod.splits if_splits)

lemma Allocate_conserves:
  assumes "Allocate t p h = (r, p', h')"
  shows "length (free_list p') + (if r = None then 0 else 1) + total_allocated p
         = length (free_list p) + total_allocated p'"
  using assms
  by (cases "free_list p"; cases "slab_list p")
     (auto simp: Allocate_def total_allocated_def front_Allocate_def Slab_Allocate_def aligned_alloc_def
       Let_def not_le not_less word_inc_unat split: option.splits prod.splits if_splits)

lemma Allocate_max_slabs: "Allocate t p h = (r, p', h') \<Longrightarrow> max_slabs p' = max_slabs p"
  by (cases "free_list p"; cases "slab_list p")
     (auto simp: Allocate_def front_Allocate_def Slab_Allocate_def aligned_alloc_def
       Let_def split: option.splits prod.splits if_splits)

lemma Allocate_remaining_zero:
  assumes "0 < SlabAllocationCount t" and "remaining t p = 0"
  shows "Allocate t p h = (None, p, h)"
proof -
  from assms(1) have C: "0 < unat (SlabAllocationCount t)"
    by (simp add: word_less_nat_alt)
  from assms(2) C have fl: "free_list p = []"
    and sl: "slab_list p = [] \<or> unat (SlabAllocationCount t) \<le> unat (alloc_count (hd (slab_list p)))"
    and sc: "unat (max_slabs p) \<le> unat (slab_count p)"
    by (auto simp: remaining_def split: list.splits)
  from sl have "\<not> (slab_list p \<noteq> [] \<and> alloc_count (hd (slab_list p)) < SlabAllocationCount t)"
    by (auto simp: word_less_nat_alt)
  moreover from sc have "\<not> slab_count p < max_slabs p"
    by (simp add: word_less_nat_alt)
  ultimately show ?thesis
    using fl by (simp add: Allocate_acquire_spec [OF assms(1)] acquire_spec_def)
qed

lemma Allocate_remaining_pos:
  assumes "0 < SlabAllocationCount t"
    and "slab_count p < max_slabs p \<longrightarrow> grants h (calls h) \<noteq> None"
    and "0 < remaining t p"
  shows "\<exists>c p' h'. Allocate t p h = (Some c, p', h') \<and> Suc (remaining t p') = remaining t p
           \<and> grants h' = grants h"
proof -
  from assms(1) have C: "0 < unat (SlabAllocationCount t)"
    by (simp add: word_less_nat_alt)
  show ?thesis
  proof (cases "free_list p")
    case (Cons c rest)
    then show ?thesis
      by (simp add: Allocate_acquire_spec [OF assms(1)] acquire_spec_def remaining_def)
  next
    case Nil
    show ?thesis
    proof (cases "slab_list p \<noteq> [] \<and> alloc_count (hd (slab_list p)) < SlabAllocationCount t")
      case True
      then obtain s ss where sl: "slab_list p = s # ss" and lt: "alloc_count s < SlabAllocationCount t"
        by (cases "slab_list p") auto
      from lt have "unat (alloc_count s) < unat (SlabAllocationCount t)"
        by (simp add: word_less_nat_alt)
      with sl lt Nil show ?thesis
        by (simp add: Allocate_acquire_spec [OF assms(1)] acquire_spec_def remaining_def
            word_inc_unat [OF lt])
    next
      case False
      then have front: "(case slab_list p of [] \<Rightarrow> 0
                         | s # _ \<Rightarrow> unat (SlabAllocationCount t) - unat (alloc_count s)) = 0"
        by (cases "slab_list p") (auto simp: word_less_nat_alt)
      with Nil assms(3) C have "unat (slab_count p) < unat (max_slabs p)"
        by (simp add: remaining_def)
      then have lt: "slab_count p < max_slabs p"
        by (simp add: word_less_nat_alt)
      with assms(2) obtain a where a: "grants h (calls h) = Some a"
        by auto
      have "Suc ((unat (SlabAllocationCount t) - 1)
                 + (unat (max_slabs p) - Suc (unat (slab_count p))) * unat (SlabAllocationCount t))
            = (unat (max_slabs p) - unat (slab_count p)) * unat (SlabAllocationCount t)"
        using \<open>unat (slab_count p) < unat (max_slabs p)\<close> C by (rule slab_budget_step)
      with Nil False lt a front show ?thesis
        by (simp add: Allocate_acquire_spec [OF assms(1)] acquire_spec_def remaining_def
            word_inc_unat [OF lt])
    qed
  qed
qed

lemma Allocate_capped:
  assumes "0 < SlabAllocationCount t" and "max_slabs p \<le> slab_count p"
    and "Allocate t p h = (r, p', h')"
  shows "h' = h \<and> max_slabs p' \<le> slab_count p'"
  using assms(2,3)
  by (auto simp: Allocate_acquire_spec [OF assms(1)] acquire_spec_def not_less [symmetric]
      split: if_splits)

subsection \<open>Release, construction, sequences\<close>

lemma ReturnToFreeList_pool_inv: "pool_inv t p \<Longrightarrow> pool_inv t (ReturnToFreeList p c)"
  by (simp add: pool_inv_def ReturnToFreeList_def)

lemma ReturnToFreeList_total: "total_allocated (ReturnToFreeList p c) = total_allocated p"
  by (simp add: total_allocated_def ReturnToFreeList_def)

lemma ctor_plain:
  "SlabAllocator_ctor t ms False h =
     (\<lparr>free_list = [], slab_list = [], max_slabs = ms, slab_count = 0, free_list_size = 0\<rparr>, h)"
  by (simp add: SlabAllocator_ctor_def)

lemma ctor_pool_inv: "pool_inv t (fst (SlabAllocator_ctor t ms ai h))"
proof -
  let ?p0 = "\<lparr>free_list = [], slab_list = [], max_slabs = ms, slab_count = 0,
              free_list_size = 0\<rparr>"
  have p0: "pool_inv t ?p0"
    by (simp add: pool_inv_def)
  obtain r p' h' where a: "Allocate t ?p0 h = (r, p', h')"
    by (cases "Allocate t ?p0 h") auto
  from Allocate_pool_inv [OF p0 a] have "pool_inv t p'" .
  with a p0 show ?thesis
    by (cases r) (simp_all add: SlabAllocator_ctor_def Let_def ReturnToFreeList_pool_inv)
qed

lemma ctor_balance:
  "length (free_list (fst (SlabAllocator_ctor t ms ai h)))
   = total_allocated (fst (SlabAllocator_ctor t ms ai h))"
proof -
  let ?p0 = "\<lparr>free_list = [], slab_list = [], max_slabs = ms, slab_count = 0,
              free_list_size = 0\<rparr>"
  obtain r p' h' where a: "Allocate t ?p0 h = (r, p', h')"
    by (cases "Allocate t ?p0 h") auto
  from Allocate_conserves [OF a] a show ?thesis
    by (cases r)
       (simp_all add: SlabAllocator_ctor_def Let_def ReturnToFreeList_total total_allocated_def
          ReturnToFreeList_def)
qed

lemma fresh_client_inv: "client_inv t (fresh t ms ai h)"
  using ctor_pool_inv [of t ms ai h] ctor_balance [of t ms ai h]
  by (cases "SlabAllocator_ctor t ms ai h") (simp add: client_inv_def fresh_def)

lemma step_client_inv:
  assumes "client_inv t s" and "step t s x = Some s'"
  shows "client_inv t s'"
proof (cases x)
  case Acquire
  obtain r p' h' where a: "Allocate t (cl_pool s) (cl_host s) = (r, p', h')"
    by (cases "Allocate t (cl_pool s) (cl_host s)") auto
  from assms(1) have "pool_inv t (cl_pool s)"
    by (simp add: client_inv_def)
  from Allocate_pool_inv [OF this a] have "pool_inv t p'" .
  moreover from Allocate_conserves [OF a] assms(1)
  have "length (case r of None \<Rightarrow> held s | Some c \<Rightarrow> c # held s) + length (free_list p')
        = total_allocated p'"
    by (cases r) (simp_all add: client_inv_def)
  ultimately show ?thesis
    using assms(2) Acquire a by (auto simp: client_inv_def)
next
  case (Release c)
  with assms(2) have c: "c \<in> set (held s)"
    and s': "s' = \<lparr>cl_pool = ReturnToFreeList (cl_pool s) c, cl_host = cl_host s,
                   held = remove1 c (held s)\<rparr>"
    by (auto split: if_splits)
  from c have "0 < length (held s)"
    by (cases "held s") auto
  with c have "length (remove1 c (held s)) + Suc (length (free_list (cl_pool s)))
                = length (held s) + length (free_list (cl_pool s))"
    by (simp add: length_remove1)
  moreover have "free_list (ReturnToFreeList (cl_pool s) c) = c # free_list (cl_pool s)"
    by (simp add: ReturnToFreeList_def)
  ultimately show ?thesis
    using assms(1)
    by (simp add: s' client_inv_def ReturnToFreeList_pool_inv ReturnToFreeList_total)
qed

lemma run_client_inv:
  "client_inv t s \<Longrightarrow> run t s ops = Some s' \<Longrightarrow> client_inv t s'"
proof (induction ops arbitrary: s)
  case Nil
  then show ?case by simp
next
  case (Cons x xs)
  then show ?case
    by (cases "step t s x") (auto dest: step_client_inv)
qed

lemma total_allocated_bound:
  assumes "pool_inv t p"
  shows "total_allocated p \<le> unat (slab_count p) * unat (SlabAllocationCount t)"
proof -
  have "sum_list (map (\<lambda>s. unat (alloc_count s)) ss) \<le> length ss * unat (SlabAllocationCount t)"
    if "\<forall>s \<in> set ss. alloc_count s \<le> SlabAllocationCount t" for ss
    using that by (induction ss) (auto simp: word_le_nat_alt)
  from this [of "slab_list p"] assms show ?thesis
    by (simp add: pool_inv_def total_allocated_def)
qed

lemma Allocate_n_all_succeed:
  assumes "0 < SlabAllocationCount t"
    and "(\<forall>k. grants h k \<noteq> None) \<or> max_slabs p \<le> slab_count p"
    and "n \<le> remaining t p"
  shows "\<exists>rs p' h'. Allocate_n t n p h = (rs, p', h') \<and> length rs = n
           \<and> (\<forall>r \<in> set rs. r \<noteq> None) \<and> remaining t p' = remaining t p - n
           \<and> (max_slabs p \<le> slab_count p \<longrightarrow> h' = h)"
  using assms(2,3)
proof (induction n arbitrary: p h)
  case 0
  then show ?case by simp
next
  case (Suc n)
  from Suc.prems(1) have "slab_count p < max_slabs p \<longrightarrow> grants h (calls h) \<noteq> None"
    by (auto simp: not_less [symmetric])
  moreover from Suc.prems(2) have "0 < remaining t p"
    by simp
  ultimately obtain c p1 h1 where a: "Allocate t p h = (Some c, p1, h1)"
    and r1: "Suc (remaining t p1) = remaining t p" and g1: "grants h1 = grants h"
    using Allocate_remaining_pos [OF assms(1)] by blast
  from Suc.prems(1) g1 Allocate_capped [OF assms(1) _ a]
  have ok1: "(\<forall>k. grants h1 k \<noteq> None) \<or> max_slabs p1 \<le> slab_count p1"
    by auto
  from r1 Suc.prems(2) have n1: "n \<le> remaining t p1"
    by simp
  from Suc.IH [OF ok1 n1] obtain rs p' h' where
    b: "Allocate_n t n p1 h1 = (rs, p', h')" and l: "length rs = n"
    and ok: "\<forall>r \<in> set rs. r \<noteq> None" and r': "remaining t p' = remaining t p1 - n"
    and h': "max_slabs p1 \<le> slab_count p1 \<longrightarrow> h' = h1"
    by blast
  from Allocate_capped [OF assms(1) _ a] h'
  have "max_slabs p \<le> slab_count p \<longrightarrow> h' = h"
    by auto
  with a b l ok r' r1 show ?case
    by auto
qed

subsection \<open>Failure, pre-allocation, teardown\<close>

lemma Allocate_fails_iff:
  assumes "0 < SlabAllocationCount t"
  shows "fst (Allocate t p h) = None \<longleftrightarrow>
           free_list p = []
           \<and> (slab_list p = [] \<or> SlabAllocationCount t \<le> alloc_count (hd (slab_list p)))
           \<and> (max_slabs p \<le> slab_count p \<or> grants h (calls h) = None)"
  by (auto simp: Allocate_acquire_spec [OF assms] acquire_spec_def not_less not_le
      split: option.splits)

lemma Allocate_fails_pool:
  assumes "0 < SlabAllocationCount t" and "fst (Allocate t p h) = None"
  shows "\<exists>h'. Allocate t p h = (None, p, h') \<and> grants h' = grants h \<and> freed h' = freed h"
  using assms(2)
  by (auto simp: Allocate_acquire_spec [OF assms(1)] acquire_spec_def
      split: option.splits if_splits)

lemma Allocate_first_slab:
  assumes "0 < SlabAllocationCount t" and "0 < ms" and "grants h (calls h) = Some a"
  shows "Allocate t \<lparr>free_list = [], slab_list = [], max_slabs = ms, slab_count = 0,
                     free_list_size = 0\<rparr> h
         = (Some (Cell a 0),
            \<lparr>free_list = [], slab_list = [\<lparr>region = a, alloc_count = 1\<rparr>], max_slabs = ms,
             slab_count = 1, free_list_size = 0\<rparr>,
            h\<lparr>calls := Suc (calls h)\<rparr>)"
  using assms(2,3) by (simp add: Allocate_acquire_spec [OF assms(1)] acquire_spec_def)

lemma ctor_prealloc_granted:
  assumes "0 < SlabAllocationCount t" and "0 < ms" and "grants h (calls h) = Some a"
  shows "SlabAllocator_ctor t ms True h
         = (\<lparr>free_list = [Cell a 0], slab_list = [\<lparr>region = a, alloc_count = 1\<rparr>],
             max_slabs = ms, slab_count = 1, free_list_size = 1\<rparr>,
            h\<lparr>calls := Suc (calls h)\<rparr>)"
  by (simp add: SlabAllocator_ctor_def Allocate_first_slab [OF assms] ReturnToFreeList_def)

lemma ctor_prealloc_skipped:
  assumes "ms = 0 \<or> grants h (calls h) = None"
  shows "fst (SlabAllocator_ctor t ms True h)
         = \<lparr>free_list = [], slab_list = [], max_slabs = ms, slab_count = 0, free_list_size = 0\<rparr>"
  using assms
  by (auto simp: SlabAllocator_ctor_def Allocate_def aligned_alloc_def Let_def)

lemma free_slabs_sum:
  "fst (free_slabs ss acc h) = acc + sum_list (map alloc_count ss)"
  by (induction ss arbitrary: acc h) (simp_all add: add.assoc)

lemma word_sum_of_nat:
  "sum_list (map f xs) = (of_nat (sum_list (map (\<lambda>x. unat (f x)) xs)) :: 'a::len word)"
  by (induction xs) simp_all

subsection \<open>Objects and their origin\<close>

lemmas world_defs =
  New_def static_New_def SetOrigin_def operator_delete_def return_cell_def construct_pool_def
  empty_world_def

lemma New_instanced_origin:
  assumes "\<not> IsStaticAllocator t" and "New t P args w = Inr (Some c, w1)"
  shows "objects w1 c = Some \<lparr>slab_origin = Some P, obj_state = args\<rparr>"
  using assms
  by (auto simp: New_def SetOrigin_def Let_def split: prod.splits option.splits)

lemma New_static_origin:
  assumes "IsStaticAllocator t" and "New t P args w = Inr (Some c, w1)"
  shows "objects w1 c = Some \<lparr>slab_origin = None, obj_state = args\<rparr>"
  using assms
  by (auto simp: New_def SetOrigin_def Let_def split: prod.splits option.splits)

lemma New_no_error: "New t P args w \<noteq> Inl e"
  by (auto simp: New_def SetOrigin_def Let_def split: prod.splits option.splits)

lemma New_exhausted_empty:
  assumes "pools w this = \<lparr>free_list = [], slab_list = [], max_slabs = 0, slab_count = 0,
                            free_list_size = 0\<rparr>"
  shows "New t this args w = Inr (None, w)"
proof -
  have "Allocate t (pools w this) (the_host w) = (None, pools w this, the_host w)"
    by (simp add: assms Allocate_def)
  then show ?thesis
    by (simp add: New_def)
qed

lemma New_seq_exhausted_empty:
  assumes "pools w this = \<lparr>free_list = [], slab_list = [], max_slabs = 0, slab_count = 0,
                            free_list_size = 0\<rparr>"
  shows "New_seq t this argss w = Inr (replicate (length argss) None, w)"
  by (induction argss) (simp_all add: New_exhausted_empty [OF assms])

lemma return_cell_pools:
  "free_list (pools (return_cell P c w) P) = c # free_list (pools w P)"
  "Q \<noteq> P \<Longrightarrow> pools (return_cell P c w) Q = pools w Q"
  by (simp_all add: return_cell_def ReturnToFreeList_def)

lemma delete_instanced:
  assumes "\<not> IsStaticAllocator t" and "objects w c = Some ob" and "slab_origin ob = Some P"
  shows "operator_delete t (Some c) w = Inr (return_cell P c w)"
  using assms by (simp add: operator_delete_def)

lemma delete_static:
  assumes "IsStaticAllocator t"
  shows "operator_delete t (Some c) w = Inr (return_cell (static_allocator t) c w)"
  using assms by (simp add: operator_delete_def)

subsection \<open>The claims\<close>

text \<open>
  C1 (order of the acquire path). With at least one cell per slab (the
  \<^verbatim>\<open>static_assert\<close> on \<^verbatim>\<open>SlabAllocationCount\<close>), \<^verbatim>\<open>Allocate\<close> does in every pool
  state and for every answer of the host exactly what the four steps say, in that order:
  pop the head of the free list; else carve from the front slab if it is not full; else,
  below the slab ceiling, take a region from the host, push it as the front slab, count it
  and return its first cell; else return null, also when the host refuses the region.
\<close>

theorem Allocate_follows_acquire_order:
  assumes "0 < SlabAllocationCount t"
  shows "Allocate t p h = acquire_spec t p h"
  using assms by (rule Allocate_acquire_spec)

theorem Allocate_follows_acquire_order_witness:
  "0 < SlabAllocationCount example_traits
   \<and> Allocate example_traits (fst (SlabAllocator_ctor example_traits 1 False granting_host))
         granting_host
       = acquire_spec example_traits
           (fst (SlabAllocator_ctor example_traits 1 False granting_host)) granting_host
   \<and> fst (acquire_spec example_traits
            (fst (SlabAllocator_ctor example_traits 1 False granting_host)) granting_host)
       = Some (Cell 1000 0)"
proof -
  have pos: "0 < SlabAllocationCount example_traits"
    by (simp add: example_SlabAllocationCount)
  have "fst (acquire_spec example_traits
            (fst (SlabAllocator_ctor example_traits 1 False granting_host)) granting_host)
        = Some (Cell 1000 0)"
    by (simp add: acquire_spec_def eval_defs)
  with pos Allocate_follows_acquire_order [OF pos] show ?thesis
    by simp
qed

text \<open>
  C2 (exhaustion threshold), as amended: when the host grants every slab it is asked for,
  \<open>max_slabs \<times> cells_per_slab\<close> acquires in a row on a pool built without pre-allocation
  all succeed, the next acquire returns null and leaves the pool as it is, and after the
  release of any cell dispensed before, the next acquire succeeds (with that cell).
\<close>

theorem exhaustion_threshold:
  assumes "0 < SlabAllocationCount t" and "\<forall>k. grants h k \<noteq> None"
  shows "\<exists>rs p' h'.
           Allocate_n t (unat ms * unat (SlabAllocationCount t))
             (fst (SlabAllocator_ctor t ms False h)) h = (rs, p', h')
           \<and> length rs = unat ms * unat (SlabAllocationCount t)
           \<and> (\<forall>r \<in> set rs. r \<noteq> None)
           \<and> Allocate t p' h' = (None, p', h')
           \<and> (\<forall>c h''. Some c \<in> set rs \<longrightarrow> fst (Allocate t (ReturnToFreeList p' c) h'') = Some c)"
proof -
  let ?p0 = "\<lparr>free_list = [], slab_list = [], max_slabs = ms, slab_count = 0,
              free_list_size = 0\<rparr>"
  have rem0: "remaining t ?p0 = unat ms * unat (SlabAllocationCount t)"
    by (simp add: remaining_def)
  from assms(2) have "(\<forall>k. grants h k \<noteq> None) \<or> max_slabs ?p0 \<le> slab_count ?p0"
    by blast
  from Allocate_n_all_succeed [OF assms(1) this, of "unat ms * unat (SlabAllocationCount t)"] rem0
  obtain rs p' h' where
    a: "Allocate_n t (unat ms * unat (SlabAllocationCount t)) ?p0 h = (rs, p', h')"
    and l: "length rs = unat ms * unat (SlabAllocationCount t)"
    and ok: "\<forall>r \<in> set rs. r \<noteq> None" and r': "remaining t p' = 0"
    by auto
  from Allocate_remaining_zero [OF assms(1) r'] have "Allocate t p' h' = (None, p', h')" .
  moreover have "fst (Allocate t (ReturnToFreeList p' c) h'') = Some c" for c h''
    by (simp add: Allocate_def ReturnToFreeList_def)
  ultimately show ?thesis
    using a l ok by (simp add: ctor_plain)
qed

theorem exhaustion_threshold_witness:
  "0 < SlabAllocationCount example_traits
   \<and> (\<forall>k. grants granting_host k \<noteq> None)
   \<and> (\<exists>rs p' h'.
         Allocate_n example_traits (unat (1 :: size_t) * unat (SlabAllocationCount example_traits))
           (fst (SlabAllocator_ctor example_traits 1 False granting_host)) granting_host
           = (rs, p', h')
         \<and> length rs = unat (1 :: size_t) * unat (SlabAllocationCount example_traits)
         \<and> (\<forall>r \<in> set rs. r \<noteq> None)
         \<and> Allocate example_traits p' h' = (None, p', h')
         \<and> (\<forall>c h''. Some c \<in> set rs
               \<longrightarrow> fst (Allocate example_traits (ReturnToFreeList p' c) h'') = Some c))
   \<and> fst (Allocate_n example_traits 2
            (fst (SlabAllocator_ctor example_traits 1 False granting_host)) granting_host)
       = [Some (Cell 1000 0), Some (Cell 1000 1)]"
proof -
  have pos: "0 < SlabAllocationCount example_traits"
    by (simp add: example_SlabAllocationCount)
  have gr: "\<forall>k. grants granting_host k \<noteq> None"
    by (simp add: granting_host_def)
  have "fst (Allocate_n example_traits 2
            (fst (SlabAllocator_ctor example_traits 1 False granting_host)) granting_host)
       = [Some (Cell 1000 0), Some (Cell 1000 1)]"
    by (simp add: Allocate_n_numeral eval_defs)
  with pos gr exhaustion_threshold [OF pos gr, of 1] show ?thesis
    by blast
qed

text \<open>
  The claim as it is written does not hold: with a host that refuses, a pool with
  \<open>max_slabs = 1\<close> and two cells per slab fails both of its first two acquires.
\<close>

theorem exhaustion_threshold_counterexample:
  "fst (Allocate_n example_traits (unat (1 :: size_t) * unat (SlabAllocationCount example_traits))
          (fst (SlabAllocator_ctor example_traits 1 False refusing_host)) refusing_host)
   = [None, None]"
  by (simp add: Allocate_n_numeral eval_defs)

text \<open>
  C3 (conservation). After every sequence of acquires and releases on a pool just
  constructed (with or without pre-allocation), the cells held by callers plus the cells on
  the free list are exactly the cells the slabs have handed out; that number is at most
  \<open>slab_count \<times> cells_per_slab\<close>; and \<open>slab_count\<close> is at most \<open>max_slabs\<close>.
\<close>

theorem conservation:
  assumes "run t (fresh t ms alloc_initial h) ops = Some s"
  shows "length (held s) + length (free_list (cl_pool s)) = total_allocated (cl_pool s)
         \<and> total_allocated (cl_pool s)
             \<le> unat (slab_count (cl_pool s)) * unat (SlabAllocationCount t)
         \<and> slab_count (cl_pool s) \<le> max_slabs (cl_pool s)"
proof -
  from run_client_inv [OF fresh_client_inv assms] have inv: "client_inv t s" .
  then have "pool_inv t (cl_pool s)"
    by (simp add: client_inv_def)
  from total_allocated_bound [OF this] this inv show ?thesis
    by (simp add: client_inv_def pool_inv_def)
qed

theorem conservation_witness:
  "run example_traits (fresh example_traits 2 False granting_host)
     [Acquire, Acquire, Release (Cell 1000 0), Acquire, Acquire]
   = Some \<lparr>cl_pool =
             \<lparr>free_list = [],
              slab_list = [\<lparr>region = 1001, alloc_count = 1\<rparr>,
                           \<lparr>region = 1000, alloc_count = 2\<rparr>],
              max_slabs = 2, slab_count = 2, free_list_size = 0\<rparr>,
           cl_host = \<lparr>grants = (\<lambda>n. Some (1000 + n)), calls = 2, freed = []\<rparr>,
           held = [Cell 1001 0, Cell 1000 0, Cell 1000 1]\<rparr>
   \<and> length [Cell 1001 0, Cell 1000 0, Cell 1000 1] + length ([] :: cell list)
       = total_allocated
           \<lparr>free_list = [],
            slab_list = [\<lparr>region = 1001, alloc_count = 1\<rparr>,
                         \<lparr>region = 1000, alloc_count = 2\<rparr>],
            max_slabs = 2, slab_count = 2, free_list_size = 0\<rparr>"
proof -
  have r: "run example_traits (fresh example_traits 2 False granting_host)
     [Acquire, Acquire, Release (Cell 1000 0), Acquire, Acquire]
   = Some \<lparr>cl_pool =
             \<lparr>free_list = [],
              slab_list = [\<lparr>region = 1001, alloc_count = 1\<rparr>,
                           \<lparr>region = 1000, alloc_count = 2\<rparr>],
              max_slabs = 2, slab_count = 2, free_list_size = 0\<rparr>,
           cl_host = \<lparr>grants = (\<lambda>n. Some (1000 + n)), calls = 2, freed = []\<rparr>,
           held = [Cell 1001 0, Cell 1000 0, Cell 1000 1]\<rparr>"
    by (simp add: eval_defs)
  from conservation [OF r] r show ?thesis
    by simp
qed

text \<open>
  C4 (LIFO reuse). In every pool state and for every cell \<open>c\<close>, releasing \<open>c\<close> and then
  acquiring returns exactly \<open>c\<close>: the release pushes at the head of the free list and the
  acquire pops the head. The pool is back in the state before the release and the host
  allocator is not called.
\<close>

theorem release_then_acquire_lifo:
  "Allocate t (ReturnToFreeList p c) h = (Some c, p, h)"
  by (simp add: Allocate_def ReturnToFreeList_def)

text \<open>
  C5 (origin tagging and routing). On an instanced configuration, a successful \<^verbatim>\<open>New\<close>
  on the pool at \<open>P\<close> leaves an object whose \<^verbatim>\<open>slab_origin_\<close> is \<open>P\<close>; whenever
  \<^verbatim>\<open>operator delete\<close> later runs on that object (in any state of the world in which the
  object is as \<^verbatim>\<open>New\<close> left it), the cell is pushed on the free list of the pool at \<open>P\<close>
  and every other pool is untouched. On a static configuration \<^verbatim>\<open>SetOrigin\<close> changes
  nothing, the object keeps no origin, and \<^verbatim>\<open>operator delete\<close> pushes the cell on the free
  list of the one \<^verbatim>\<open>allocator_\<close> of the configuration and touches no other pool.
\<close>

theorem origin_routing:
  "(\<not> IsStaticAllocator t \<longrightarrow> New t P args w = Inr (Some c, w1) \<longrightarrow>
      (\<exists>ob. objects w1 c = Some ob \<and> slab_origin ob = Some P)
      \<and> (\<forall>w2. objects w2 c = objects w1 c \<longrightarrow>
            (\<exists>w3. operator_delete t (Some c) w2 = Inr w3
                  \<and> free_list (pools w3 P) = c # free_list (pools w2 P)
                  \<and> (\<forall>Q. Q \<noteq> P \<longrightarrow> pools w3 Q = pools w2 Q))))
   \<and> (IsStaticAllocator t \<longrightarrow>
        SetOrigin t ptr origin objs = Inr objs
        \<and> (static_New t args w = Inr (Some c, w1) \<longrightarrow>
              objects w1 c = Some \<lparr>slab_origin = None, obj_state = args\<rparr>)
        \<and> (\<forall>w2. \<exists>w3. operator_delete t (Some c) w2 = Inr w3
                  \<and> free_list (pools w3 (static_allocator t))
                      = c # free_list (pools w2 (static_allocator t))
                  \<and> (\<forall>Q. Q \<noteq> static_allocator t \<longrightarrow> pools w3 Q = pools w2 Q)))"
proof (intro conjI impI)
  assume inst: "\<not> IsStaticAllocator t" and new: "New t P args w = Inr (Some c, w1)"
  from New_instanced_origin [OF inst new]
  show "\<exists>ob. objects w1 c = Some ob \<and> slab_origin ob = Some P"
    by simp
  show "\<forall>w2. objects w2 c = objects w1 c \<longrightarrow>
            (\<exists>w3. operator_delete t (Some c) w2 = Inr w3
                  \<and> free_list (pools w3 P) = c # free_list (pools w2 P)
                  \<and> (\<forall>Q. Q \<noteq> P \<longrightarrow> pools w3 Q = pools w2 Q))"
  proof (intro allI impI)
    fix w2 :: "'a world"
    assume "objects w2 c = objects w1 c"
    with New_instanced_origin [OF inst new]
    have "operator_delete t (Some c) w2 = Inr (return_cell P c w2)"
      by (simp add: delete_instanced [OF inst])
    then show "\<exists>w3. operator_delete t (Some c) w2 = Inr w3
                  \<and> free_list (pools w3 P) = c # free_list (pools w2 P)
                  \<and> (\<forall>Q. Q \<noteq> P \<longrightarrow> pools w3 Q = pools w2 Q)"
      by (simp add: return_cell_pools)
  qed
next
  assume "IsStaticAllocator t"
  then show "SetOrigin t ptr origin objs = Inr objs"
    by (simp add: SetOrigin_def)
next
  assume "IsStaticAllocator t" and "static_New t args w = Inr (Some c, w1)"
  then show "objects w1 c = Some \<lparr>slab_origin = None, obj_state = args\<rparr>"
    by (simp add: static_New_def New_static_origin)
next
  assume "IsStaticAllocator t"
  then show "\<forall>w2. \<exists>w3. operator_delete t (Some c) w2 = Inr w3
                  \<and> free_list (pools w3 (static_allocator t))
                      = c # free_list (pools w2 (static_allocator t))
                  \<and> (\<forall>Q. Q \<noteq> static_allocator t \<longrightarrow> pools w3 Q = pools w2 Q)"
    by (simp add: delete_static return_cell_pools)
qed

theorem origin_routing_witness:
  "\<not> IsStaticAllocator example_traits
   \<and> (\<exists>w1. New example_traits 7 () (construct_pool example_traits 7 1 False empty_world)
              = Inr (Some (Cell 1000 0), w1)
           \<and> (\<exists>ob. objects w1 (Cell 1000 0) = Some ob \<and> slab_origin ob = Some 7)
           \<and> (\<exists>w3. operator_delete example_traits (Some (Cell 1000 0)) w1 = Inr w3
                  \<and> free_list (pools w3 7) = Cell 1000 0 # free_list (pools w1 7)
                  \<and> (\<forall>Q. Q \<noteq> 7 \<longrightarrow> pools w3 Q = pools w1 Q)))
   \<and> IsStaticAllocator example_static_traits
   \<and> (\<exists>w1. static_New example_static_traits ()
               (construct_pool example_static_traits 0 1 False empty_world)
              = Inr (Some (Cell 1000 0), w1)
           \<and> objects w1 (Cell 1000 0) = Some \<lparr>slab_origin = None, obj_state = ()\<rparr>
           \<and> (\<exists>w3. operator_delete example_static_traits (Some (Cell 1000 0)) w1 = Inr w3
                  \<and> free_list (pools w3 0) = Cell 1000 0 # free_list (pools w1 0)
                  \<and> (\<forall>Q. Q \<noteq> 0 \<longrightarrow> pools w3 Q = pools w1 Q)))"
proof -
  have i: "\<not> IsStaticAllocator example_traits"
    by (simp add: example_traits_def)
  have s: "IsStaticAllocator example_static_traits"
    and sa: "static_allocator example_static_traits = 0"
    by (simp_all add: example_static_traits_def example_traits_def)
  obtain w1 where n1: "New example_traits 7 () (construct_pool example_traits 7 1 False empty_world)
              = Inr (Some (Cell 1000 0), w1)"
    by (simp add: world_defs eval_defs)
  obtain v1 where n2: "static_New example_static_traits ()
               (construct_pool example_static_traits 0 1 False empty_world)
              = Inr (Some (Cell 1000 0), v1)"
    by (simp add: world_defs eval_defs)
  from origin_routing [of example_traits 7 "()" _ "Cell 1000 0" w1] i n1
  have a: "(\<exists>ob. objects w1 (Cell 1000 0) = Some ob \<and> slab_origin ob = Some 7)
           \<and> (\<exists>w3. operator_delete example_traits (Some (Cell 1000 0)) w1 = Inr w3
                  \<and> free_list (pools w3 7) = Cell 1000 0 # free_list (pools w1 7)
                  \<and> (\<forall>Q. Q \<noteq> 7 \<longrightarrow> pools w3 Q = pools w1 Q))"
    by blast
  from origin_routing [of example_static_traits _ "()" _ "Cell 1000 0" v1] s sa n2
  have b: "objects v1 (Cell 1000 0) = Some \<lparr>slab_origin = None, obj_state = ()\<rparr>
           \<and> (\<exists>w3. operator_delete example_static_traits (Some (Cell 1000 0)) v1 = Inr w3
                  \<and> free_list (pools w3 0) = Cell 1000 0 # free_list (pools v1 0)
                  \<and> (\<forall>Q. Q \<noteq> 0 \<longrightarrow> pools w3 Q = pools v1 Q))"
    by metis
  from i s n1 n2 a b show ?thesis
    by blast
qed

text \<open>
  C6 (pre-allocation), as amended: when \<open>max_slabs\<close> is at least 1 and the host grants
  the region asked for during construction, the constructor with \<^verbatim>\<open>alloc_initial\<close> set
  acquires one cell and releases it at once, so the pool starts with its first slab and
  that slab's first cell on the free list; and with \<open>max_slabs = 1\<close> the next
  \<open>cells_per_slab\<close> acquires all succeed and none of them calls the host allocator,
  whatever state the host is in.
\<close>

theorem prealloc_first_slab:
  assumes "0 < SlabAllocationCount t" and "0 < ms" and "grants h (calls h) = Some a"
  shows "SlabAllocator_ctor t ms True h
           = (\<lparr>free_list = [Cell a 0], slab_list = [\<lparr>region = a, alloc_count = 1\<rparr>],
               max_slabs = ms, slab_count = 1, free_list_size = 1\<rparr>,
              h\<lparr>calls := Suc (calls h)\<rparr>)
         \<and> (ms = 1 \<longrightarrow>
              (\<forall>h2. \<exists>rs p'.
                 Allocate_n t (unat (SlabAllocationCount t))
                   (fst (SlabAllocator_ctor t ms True h)) h2 = (rs, p', h2)
                 \<and> length rs = unat (SlabAllocationCount t)
                 \<and> (\<forall>r \<in> set rs. r \<noteq> None)))"
proof -
  let ?p = "\<lparr>free_list = [Cell a 0], slab_list = [\<lparr>region = a, alloc_count = 1\<rparr>],
             max_slabs = 1, slab_count = 1, free_list_size = 1\<rparr>"
  note ctor = ctor_prealloc_granted [OF assms]
  have "\<exists>rs p'. Allocate_n t (unat (SlabAllocationCount t)) ?p h2 = (rs, p', h2)
          \<and> length rs = unat (SlabAllocationCount t) \<and> (\<forall>r \<in> set rs. r \<noteq> None)" for h2
  proof -
    from assms(1) have "0 < unat (SlabAllocationCount t)"
      by (simp add: word_less_nat_alt)
    then have rem: "remaining t ?p = unat (SlabAllocationCount t)"
      by (simp add: remaining_def)
    have "(\<forall>k. grants h2 k \<noteq> None) \<or> max_slabs ?p \<le> slab_count ?p"
      by simp
    from Allocate_n_all_succeed [OF assms(1) this, of "unat (SlabAllocationCount t)"] rem
    show ?thesis
      by auto
  qed
  with ctor show ?thesis
    by auto
qed

theorem prealloc_first_slab_witness:
  "0 < SlabAllocationCount example_traits \<and> (0 :: size_t) < 1
   \<and> grants granting_host (calls granting_host) = Some 1000
   \<and> SlabAllocator_ctor example_traits 1 True granting_host
       = (\<lparr>free_list = [Cell 1000 0], slab_list = [\<lparr>region = 1000, alloc_count = 1\<rparr>],
           max_slabs = 1, slab_count = 1, free_list_size = 1\<rparr>,
          granting_host\<lparr>calls := Suc (calls granting_host)\<rparr>)
   \<and> (\<forall>h2. \<exists>rs p'.
          Allocate_n example_traits (unat (SlabAllocationCount example_traits))
            (fst (SlabAllocator_ctor example_traits 1 True granting_host)) h2 = (rs, p', h2)
          \<and> length rs = unat (SlabAllocationCount example_traits)
          \<and> (\<forall>r \<in> set rs. r \<noteq> None))"
proof -
  have pos: "0 < SlabAllocationCount example_traits"
    by (simp add: example_SlabAllocationCount)
  have ms: "(0 :: size_t) < 1"
    by simp
  have g: "grants granting_host (calls granting_host) = Some 1000"
    by (simp add: granting_host_def)
  from prealloc_first_slab [OF pos ms g] pos ms g show ?thesis
    by blast
qed

text \<open>
  The claim as it is written does not hold for every pool: when the host refuses the
  region during construction, the pool built with \<^verbatim>\<open>alloc_initial\<close> set and
  \<open>max_slabs = 1\<close> has no slab, and its next acquire calls the host (and fails again).
\<close>

theorem prealloc_first_slab_counterexample:
  "slab_list (fst (SlabAllocator_ctor example_traits 1 True refusing_host)) = []
   \<and> fst (Allocate example_traits
           (fst (SlabAllocator_ctor example_traits 1 True refusing_host))
           (snd (SlabAllocator_ctor example_traits 1 True refusing_host))) = None
   \<and> calls (snd (snd (Allocate example_traits
           (fst (SlabAllocator_ctor example_traits 1 True refusing_host))
           (snd (SlabAllocator_ctor example_traits 1 True refusing_host)))))
       = Suc (calls (snd (SlabAllocator_ctor example_traits 1 True refusing_host)))"
  by (simp add: eval_defs)

text \<open>
  C7 (leak detection at teardown). The destructor's loop sums \<^verbatim>\<open>alloc_count\<close> over the
  slab list. After any sequence of acquires and releases on a constructed pool, with
  fewer than \<open>2^64\<close> cells in callers' hands (cells are distinct addresses of a 64-bit
  address space), the assertion \<^verbatim>\<open>free_list_size_ == allocated_count\<close> holds if and only
  if callers hold no cell any more; destroying the pool while a cell is still held fails
  the assertion.
\<close>

theorem leak_detection:
  assumes "run t (fresh t ms alloc_initial h) ops = Some s"
    and "length (held s) < 2 ^ 64"
  shows "fst (free_slabs (slab_list (cl_pool s)) 0 h2)
           = sum_list (map alloc_count (slab_list (cl_pool s)))
         \<and> ((\<exists>h'. SlabAllocator_dtor (cl_pool s) h2 = Inr h') \<longleftrightarrow> held s = [])
         \<and> (held s \<noteq> [] \<longrightarrow> SlabAllocator_dtor (cl_pool s) h2 = Inl DEBUG_ASSERT_failed)"
proof -
  from run_client_inv [OF fresh_client_inv assms(1)] have inv: "client_inv t s" .
  let ?p = "cl_pool s"
  have sum: "fst (free_slabs (slab_list ?p) 0 h2) = sum_list (map alloc_count (slab_list ?p))"
    by (simp add: free_slabs_sum)
  also have "\<dots> = of_nat (total_allocated ?p)"
    by (simp add: total_allocated_def word_sum_of_nat [of alloc_count])
  also from inv have "\<dots> = of_nat (length (held s) + length (free_list ?p))"
    by (simp add: client_inv_def)
  finally have cnt: "fst (free_slabs (slab_list ?p) 0 h2)
                     = of_nat (length (held s) + length (free_list ?p))" .
  from inv have "free_list_size ?p = of_nat (length (free_list ?p))"
    by (simp add: client_inv_def pool_inv_def)
  with cnt of_nat_cancel [where 'a = 64, of "length (held s)" "length (free_list ?p)"] assms(2)
  have "free_list_size ?p = fst (free_slabs (slab_list ?p) 0 h2) \<longleftrightarrow> held s = []"
    by simp
  then have "(\<exists>h'. SlabAllocator_dtor ?p h2 = Inr h') \<longleftrightarrow> held s = []"
    and "held s \<noteq> [] \<longrightarrow> SlabAllocator_dtor ?p h2 = Inl DEBUG_ASSERT_failed"
    by (auto simp: SlabAllocator_dtor_def split: prod.splits)
  with sum show ?thesis
    by blast
qed

theorem leak_detection_witness:
  "run example_traits (fresh example_traits 1 False granting_host)
     [Acquire, Acquire, Release (Cell 1000 0)]
   = Some \<lparr>cl_pool =
             \<lparr>free_list = [Cell 1000 0], slab_list = [\<lparr>region = 1000, alloc_count = 2\<rparr>],
              max_slabs = 1, slab_count = 1, free_list_size = 1\<rparr>,
           cl_host = \<lparr>grants = (\<lambda>n. Some (1000 + n)), calls = 1, freed = []\<rparr>,
           held = [Cell 1000 1]\<rparr>
   \<and> length [Cell 1000 1] < (2 :: nat) ^ 64
   \<and> SlabAllocator_dtor
         \<lparr>free_list = [Cell 1000 0], slab_list = [\<lparr>region = 1000, alloc_count = 2\<rparr>],
          max_slabs = 1, slab_count = 1, free_list_size = 1\<rparr> granting_host
       = Inl DEBUG_ASSERT_failed"
proof -
  have r: "run example_traits (fresh example_traits 1 False granting_host)
     [Acquire, Acquire, Release (Cell 1000 0)]
   = Some \<lparr>cl_pool =
             \<lparr>free_list = [Cell 1000 0], slab_list = [\<lparr>region = 1000, alloc_count = 2\<rparr>],
              max_slabs = 1, slab_count = 1, free_list_size = 1\<rparr>,
           cl_host = \<lparr>grants = (\<lambda>n. Some (1000 + n)), calls = 1, freed = []\<rparr>,
           held = [Cell 1000 1]\<rparr>"
    by (simp add: eval_defs)
  have len: "length (held \<lparr>cl_pool =
             \<lparr>free_list = [Cell 1000 0], slab_list = [\<lparr>region = 1000, alloc_count = 2\<rparr>],
              max_slabs = 1, slab_count = 1, free_list_size = 1\<rparr>,
           cl_host = \<lparr>grants = (\<lambda>n. Some (1000 + n)), calls = 1, freed = []\<rparr>,
           held = [Cell 1000 1]\<rparr>) < 2 ^ 64"
    by simp
  from leak_detection [OF r len, of granting_host] r show ?thesis
    by simp
qed

text \<open>
  C8 (failure leaves no trace). With at least one cell per slab, \<^verbatim>\<open>Allocate\<close> returns
  null only when the free list is empty, the front slab is missing or full, and the slab
  ceiling is reached or the host refuses; and when it returns null then \<^verbatim>\<open>New\<close> returns null, the pool it returns is the pool it was given (free list,
  slab list, \<^verbatim>\<open>slab_count_\<close> and every \<^verbatim>\<open>alloc_count_\<close> included), no pool of the world
  changes and no object is constructed; only the host may have been asked.
\<close>

theorem failed_acquire_changes_nothing:
  assumes "0 < SlabAllocationCount t"
    and "fst (Allocate t (pools w this) (the_host w)) = None"
  shows "(\<exists>h'. Allocate t (pools w this) (the_host w) = (None, pools w this, h')
            \<and> New t this args w = Inr (None, w\<lparr>the_host := h'\<rparr>)
            \<and> pools (w\<lparr>the_host := h'\<rparr>) = pools w
            \<and> objects (w\<lparr>the_host := h'\<rparr>) = objects w)
         \<and> free_list (pools w this) = []
         \<and> (slab_list (pools w this) = []
              \<or> SlabAllocationCount t \<le> alloc_count (hd (slab_list (pools w this))))
         \<and> (max_slabs (pools w this) \<le> slab_count (pools w this)
              \<or> grants (the_host w) (calls (the_host w)) = None)"
proof -
  from Allocate_fails_pool [OF assms] obtain h' where
    a: "Allocate t (pools w this) (the_host w) = (None, pools w this, h')"
    by blast
  then have "New t this args w = Inr (None, w\<lparr>the_host := h'\<rparr>)"
    by (simp add: New_def)
  with a have unchanged:
    "\<exists>h'. Allocate t (pools w this) (the_host w) = (None, pools w this, h')
            \<and> New t this args w = Inr (None, w\<lparr>the_host := h'\<rparr>)
            \<and> pools (w\<lparr>the_host := h'\<rparr>) = pools w
            \<and> objects (w\<lparr>the_host := h'\<rparr>) = objects w"
    by simp
  from assms(2) have why:
    "free_list (pools w this) = []
     \<and> (slab_list (pools w this) = []
          \<or> SlabAllocationCount t \<le> alloc_count (hd (slab_list (pools w this))))
     \<and> (max_slabs (pools w this) \<le> slab_count (pools w this)
          \<or> grants (the_host w) (calls (the_host w)) = None)"
    by (simp add: Allocate_fails_iff [OF assms(1)])
  from unchanged why show ?thesis
    by (rule conjI)
qed

theorem failed_acquire_changes_nothing_witness:
  "0 < SlabAllocationCount example_traits
   \<and> fst (Allocate example_traits
           (pools (construct_pool example_traits 7 1 False
                     (empty_world\<lparr>the_host := refusing_host\<rparr>)) 7)
           (the_host (construct_pool example_traits 7 1 False
                     (empty_world\<lparr>the_host := refusing_host\<rparr>)))) = None
   \<and> (\<exists>h'. New example_traits 7 ()
               (construct_pool example_traits 7 1 False (empty_world\<lparr>the_host := refusing_host\<rparr>))
             = Inr (None, (construct_pool example_traits 7 1 False
                             (empty_world\<lparr>the_host := refusing_host\<rparr>))\<lparr>the_host := h'\<rparr>))"
proof -
  let ?w = "construct_pool example_traits 7 1 False (empty_world\<lparr>the_host := refusing_host\<rparr>)"
  have pos: "0 < SlabAllocationCount example_traits"
    by (simp add: example_SlabAllocationCount)
  have fails: "fst (Allocate example_traits (pools ?w 7) (the_host ?w)) = None"
    by (simp add: world_defs eval_defs)
  from failed_acquire_changes_nothing [OF pos fails, of "()"] pos fails show ?thesis
    by blast
qed

text \<open>
  C9 (a ceiling of zero). A pool constructed with \<open>max_slabs = 0\<close> and without
  pre-allocation is the empty pool, its construction does not ask the host, and every
  \<^verbatim>\<open>New\<close> of any sequence of \<^verbatim>\<open>New\<close> calls returns null and leaves the whole world as it
  was: no slab is allocated, \<^verbatim>\<open>slab_count_\<close> stays 0 and the host is never called.
\<close>

theorem zero_max_slabs_never_allocates:
  "New_seq t this argss (construct_pool t this 0 False w)
     = Inr (replicate (length argss) None, construct_pool t this 0 False w)
   \<and> pools (construct_pool t this 0 False w) this
       = \<lparr>free_list = [], slab_list = [], max_slabs = 0, slab_count = 0, free_list_size = 0\<rparr>
   \<and> the_host (construct_pool t this 0 False w) = the_host w"
proof -
  have p: "pools (construct_pool t this 0 False w) this
       = \<lparr>free_list = [], slab_list = [], max_slabs = 0, slab_count = 0, free_list_size = 0\<rparr>"
    by (simp add: construct_pool_def ctor_plain)
  have "the_host (construct_pool t this 0 False w) = the_host w"
    by (simp add: construct_pool_def ctor_plain)
  with p New_seq_exhausted_empty [OF p] show ?thesis
    by simp
qed

theorem zero_max_slabs_never_allocates_witness:
  "New_seq example_traits 7 [(), (), ()] (construct_pool example_traits 7 0 False empty_world)
     = Inr ([None, None, None], construct_pool example_traits 7 0 False empty_world)"
  using zero_max_slabs_never_allocates [of example_traits 7 "[(), (), ()]" empty_world]
  by (simp add: numeral_3_eq_3)

text \<open>
  C10 (pre-allocation that cannot be served). The constructor has no failing path. When
  \<^verbatim>\<open>alloc_initial\<close> is set and the first slab cannot be had (\<open>max_slabs = 0\<close> or the host
  refuses), the pool is constructed empty: empty free list, no slab, \<^verbatim>\<open>slab_count_ = 0\<close>.
  If \<open>max_slabs\<close> is positive, a later \<^verbatim>\<open>New\<close> that the host serves allocates the first
  slab and returns its first cell.
\<close>

theorem prealloc_failure_is_silent:
  assumes "ms = 0 \<or> grants h (calls h) = None"
  shows "fst (SlabAllocator_ctor t ms True h)
           = \<lparr>free_list = [], slab_list = [], max_slabs = ms, slab_count = 0,
              free_list_size = 0\<rparr>
         \<and> (0 < ms \<longrightarrow> 0 < SlabAllocationCount t
              \<longrightarrow> pools w this = fst (SlabAllocator_ctor t ms True h)
              \<longrightarrow> grants (the_host w) (calls (the_host w)) = Some a
              \<longrightarrow> (\<exists>w'. New t this args w = Inr (Some (Cell a 0), w')
                        \<and> slab_list (pools w' this) = [\<lparr>region = a, alloc_count = 1\<rparr>]
                        \<and> slab_count (pools w' this) = 1))"
proof -
  note skipped = ctor_prealloc_skipped [OF assms, of t]
  have "\<exists>w'. New t this args w = Inr (Some (Cell a 0), w')
              \<and> slab_list (pools w' this) = [\<lparr>region = a, alloc_count = 1\<rparr>]
              \<and> slab_count (pools w' this) = 1"
    if "0 < ms" and "0 < SlabAllocationCount t"
      and "pools w this = fst (SlabAllocator_ctor t ms True h)"
      and "grants (the_host w) (calls (the_host w)) = Some a"
    using that(3) Allocate_first_slab [OF that(2,1,4)]
    by (auto simp: skipped New_def SetOrigin_def Let_def)
  with skipped show ?thesis
    by blast
qed

theorem prealloc_failure_is_silent_witness:
  "((1 :: size_t) = 0 \<or> grants refusing_host (calls refusing_host) = None)
   \<and> fst (SlabAllocator_ctor example_traits 1 True refusing_host)
       = \<lparr>free_list = [], slab_list = [], max_slabs = 1, slab_count = 0, free_list_size = 0\<rparr>
   \<and> (\<exists>w'. New example_traits 7 ()
               (empty_world\<lparr>pools := (pools empty_world)
                   (7 := fst (SlabAllocator_ctor example_traits 1 True refusing_host))\<rparr>)
             = Inr (Some (Cell 1000 0), w')
           \<and> slab_list (pools w' 7) = [\<lparr>region = 1000, alloc_count = 1\<rparr>]
           \<and> slab_count (pools w' 7) = 1)"
proof -
  let ?w = "empty_world\<lparr>pools := (pools empty_world)
              (7 := fst (SlabAllocator_ctor example_traits 1 True refusing_host))\<rparr>"
  have hyp: "(1 :: size_t) = 0 \<or> grants refusing_host (calls refusing_host) = None"
    by (simp add: refusing_host_def)
  have pos: "0 < SlabAllocationCount example_traits"
    by (simp add: example_SlabAllocationCount)
  have p: "pools ?w 7 = fst (SlabAllocator_ctor example_traits 1 True refusing_host)"
    by simp
  have g: "grants (the_host ?w) (calls (the_host ?w)) = Some 1000"
    by (simp add: empty_world_def granting_host_def)
  have ms: "(0 :: size_t) < 1"
    by simp
  from prealloc_failure_is_silent [OF hyp, of example_traits ?w 7 1000 "()"] hyp pos p g ms
  show ?thesis
    by blast
qed

end
